theory Spec2Isabelle
  imports Complex_Main "HOL-Library.Char_ord" "HOL-Library.List_Lexorder" "HOL-Library.Log_Nat"
begin

section \<open>JavaScript numbers and strings\<close>

text \<open>
  The numbers of the source are IEEE-754 doubles (binary64). A finite double is the
  rational it stands for; the three special values are added, since the code can observe
  them: the tests \<^verbatim>\<open>val ? ... : ...\<close> and \<^verbatim>\<open>!right\<close> are false on \<^verbatim>\<open>NaN\<close>, the
  comparison \<^verbatim>\<open>===\<close> never holds on \<^verbatim>\<open>NaN\<close>, and a division by zero returns an
  infinity or \<^verbatim>\<open>NaN\<close>. The sum, product and quotient of two finite doubles are the
  exact results rounded to the nearest double, ties to the even significand, and an
  infinity beyond the largest double. The sign of zero is the one thing not modelled: zero
  is the one value \<open>Fin 0\<close>, read as \<^verbatim>\<open>+0\<close> (the sign of a zero shows only in the sign
  of the infinity a division by that zero returns).
\<close>

datatype number = Fin rat | PosInf | NegInf | NaN

definition signed_inf :: "bool \<Rightarrow> number" where
  "signed_inf positive = (if positive then PosInf else NegInf)"

text \<open>
  Rounding to a double. For a positive rational \<open>x\<close>, \<open>floorLog2 x\<close> is the exponent
  \<open>k\<close> with \<open>2 ^ k \<le> x < 2 ^ (k + 1)\<close>, found from the bit lengths of the numerator and
  the denominator. A double has a significand of 53 bits, so the doubles next to \<open>x\<close>
  are the multiples of \<open>2 ^ (k - 52)\<close>, and of \<open>2 ^ (- 1074)\<close> in the subnormal range;
  \<open>x\<close> is rounded to the nearest multiple, to the even one of two that are as near, and
  a result of \<open>2 ^ 1024\<close> or more is an infinity.
\<close>

definition roundHalfEven :: "rat \<Rightarrow> int" where
  "roundHalfEven x =
     (let f = \<lfloor>x\<rfloor>; d = x - of_int f
      in if d < 1 / 2 then f else if 1 / 2 < d then f + 1 else if even f then f else f + 1)"

definition floorLog2 :: "rat \<Rightarrow> int" where
  "floorLog2 x =
     (let k = bitlen (fst (quotient_of x)) - bitlen (snd (quotient_of x))
      in if x < 2 powi k then k - 1 else k)"

definition roundTiesToEven :: "rat \<Rightarrow> number" where
  "roundTiesToEven x =
     (if x = 0 then Fin 0
      else (let e = max (floorLog2 \<bar>x\<bar> - 52) (- 1074);
                y = of_int (roundHalfEven (\<bar>x\<bar> / 2 powi e)) * 2 powi e
            in if 2 ^ 1024 \<le> y then signed_inf (0 < x) else Fin (sgn x * y)))"

fun truthy :: "number \<Rightarrow> bool" where
  "truthy (Fin r) = (r \<noteq> 0)"
| "truthy PosInf = True"
| "truthy NegInf = True"
| "truthy NaN = False"

fun strict_eq :: "number \<Rightarrow> number \<Rightarrow> bool" where
  "strict_eq NaN b = False"
| "strict_eq a NaN = False"
| "strict_eq a b = (a = b)"

fun js_neg :: "number \<Rightarrow> number" where
  "js_neg (Fin r) = Fin (- r)"
| "js_neg PosInf = NegInf"
| "js_neg NegInf = PosInf"
| "js_neg NaN = NaN"

fun js_add :: "number \<Rightarrow> number \<Rightarrow> number" where
  "js_add NaN b = NaN"
| "js_add a NaN = NaN"
| "js_add (Fin a) (Fin b) = roundTiesToEven (a + b)"
| "js_add PosInf NegInf = NaN"
| "js_add NegInf PosInf = NaN"
| "js_add PosInf b = PosInf"
| "js_add NegInf b = NegInf"
| "js_add (Fin a) b = b"

definition js_sub :: "number \<Rightarrow> number \<Rightarrow> number" where
  "js_sub a b = js_add a (js_neg b)"

fun js_mul :: "number \<Rightarrow> number \<Rightarrow> number" where
  "js_mul NaN b = NaN"
| "js_mul a NaN = NaN"
| "js_mul (Fin a) (Fin b) = roundTiesToEven (a * b)"
| "js_mul (Fin a) PosInf = (if a = 0 then NaN else signed_inf (0 < a))"
| "js_mul (Fin a) NegInf = (if a = 0 then NaN else signed_inf (a < 0))"
| "js_mul PosInf (Fin b) = (if b = 0 then NaN else signed_inf (0 < b))"
| "js_mul NegInf (Fin b) = (if b = 0 then NaN else signed_inf (b < 0))"
| "js_mul PosInf PosInf = PosInf"
| "js_mul PosInf NegInf = NegInf"
| "js_mul NegInf PosInf = NegInf"
| "js_mul NegInf NegInf = PosInf"

fun js_div :: "number \<Rightarrow> number \<Rightarrow> number" where
  "js_div NaN b = NaN"
| "js_div a NaN = NaN"
| "js_div (Fin a) (Fin b) =
     (if b = 0 then (if a = 0 then NaN else signed_inf (0 < a)) else roundTiesToEven (a / b))"
| "js_div (Fin a) b = Fin 0"
| "js_div PosInf (Fin b) = signed_inf (0 \<le> b)"
| "js_div NegInf (Fin b) = signed_inf (b < 0)"
| "js_div a b = NaN"

text \<open>
  Strings are lists of characters; a character stands for the code unit of the same
  number, so the white space that \<^verbatim>\<open>String.prototype.trim\<close> strips is, below 256,
  the tab, the four line and page breaks, the space and the no-break space.
\<close>

definition isWhiteSpace :: "char \<Rightarrow> bool" where
  "isWhiteSpace c = (of_char c \<in> {9, 10, 11, 12, 13, 32, 160 :: nat})"

definition trim :: "string \<Rightarrow> string" where
  "trim str = rev (dropWhile isWhiteSpace (rev (dropWhile isWhiteSpace str)))"

definition endsWith :: "string \<Rightarrow> string \<Rightarrow> bool" where
  "endsWith str suffix =
     (length suffix \<le> length str \<and> drop (length str - length suffix) str = suffix)"

definition substring :: "string \<Rightarrow> nat \<Rightarrow> nat \<Rightarrow> string" where
  "substring str start finish =
     (let a = min (min start finish) (length str); b = min (max start finish) (length str)
      in take (b - a) (drop a str))"


section \<open>Structured numeric values\<close>

text \<open>
  The classes \<^verbatim>\<open>StypDimension\<close>, \<^verbatim>\<open>StypAddSub\<close> and \<^verbatim>\<open>StypMulDiv\<close> of
  \<^verbatim>\<open>src/value/numeric.impl.ts\<close> and the class \<^verbatim>\<open>Zero\<close>, all with the priority
  \<^verbatim>\<open>'important' | undefined\<close> of \<^verbatim>\<open>src/value/value.ts\<close>. (The sources also hold
  \<^verbatim>\<open>src/value/numeric/numeric.impl.ts\<close>, a version of the same classes with numeric
  priorities; it is not the one modelled.)

  The objects are immutable, so an object is the tree of its fields together with its
  identity, a number handed out by the allocator when \<^verbatim>\<open>new\<close> runs. The comparison
  \<^verbatim>\<open>===\<close> on objects compares identities. A function that may allocate takes the
  allocator (the next free identity) and returns it with its result. Only the objects
  whose identity the code compares or returns are counted: the numeric values, the kinds
  and \<^verbatim>\<open>ZeroByPriority\<close>, not the literals of options.
\<close>

type_synonym oid = nat

type_synonym 'a alloc = "nat \<Rightarrow> 'a \<times> nat"

text \<open>The priority of a value: \<^verbatim>\<open>undefined\<close> or \<^verbatim>\<open>'important'\<close>.\<close>

datatype priority = Usual | Important

text \<open>
  \<^verbatim>\<open>ZeroByPriority\<close> holds the dimension kind and the two \<^verbatim>\<open>Zero\<close> objects it created,
  here by their identities. A dimension kind is the object built by
  \<^verbatim>\<open>unitlessZeroDimensionKind\<close> (its zero is the usual \<^verbatim>\<open>Zero\<close> of its
  \<^verbatim>\<open>ZeroByPriority\<close>) or by \<^verbatim>\<open>unitZeroDimensionKind\<close> (its zero is a dimension of value 0
  in the unit given).
\<close>

record zeroByPriority =
  zbp_oid :: oid
  zbp_dim :: oid
  zbp_usual :: oid
  zbp_important :: oid

datatype kind =
    UnitlessZero zeroByPriority
  | UnitZero oid oid string

datatype addsub_op = Plus | Minus

datatype muldiv_op = Times | Divide

datatype numeric =
    Zero zeroByPriority priority
  | StypDimension oid number string kind priority
  | StypAddSub oid numeric addsub_op numeric kind priority
  | StypMulDiv oid numeric muldiv_op number kind priority

datatype type_tag = Type0 | TypeDimension | TypeCalc

fun type_of :: "numeric \<Rightarrow> type_tag" where
  "type_of (Zero byp p) = Type0"
| "type_of (StypDimension i v u d p) = TypeDimension"
| "type_of (StypAddSub i l op r d p) = TypeCalc"
| "type_of (StypMulDiv i l op r d p) = TypeCalc"

fun priority_of :: "numeric \<Rightarrow> priority" where
  "priority_of (Zero byp p) = p"
| "priority_of (StypDimension i v u d p) = p"
| "priority_of (StypAddSub i l op r d p) = p"
| "priority_of (StypMulDiv i l op r d p) = p"

fun dim_of :: "numeric \<Rightarrow> kind" where
  "dim_of (Zero byp p) = UnitlessZero byp"
| "dim_of (StypDimension i v u d p) = d"
| "dim_of (StypAddSub i l op r d p) = d"
| "dim_of (StypMulDiv i l op r d p) = d"

definition zbp_get :: "zeroByPriority \<Rightarrow> priority \<Rightarrow> oid" where
  "zbp_get byp p = (if p = Important then zbp_important byp else zbp_usual byp)"

fun oid_of :: "numeric \<Rightarrow> oid" where
  "oid_of (Zero byp p) = zbp_get byp p"
| "oid_of (StypDimension i v u d p) = i"
| "oid_of (StypAddSub i l op r d p) = i"
| "oid_of (StypMulDiv i l op r d p) = i"

text \<open>The field \<^verbatim>\<open>unit\<close>, which only a dimension has.\<close>

fun unit_of :: "numeric \<Rightarrow> string option" where
  "unit_of (StypDimension i v u d p) = Some u"
| "unit_of x = None"


text \<open>The getter \<^verbatim>\<open>zero\<close> of a dimension kind.\<close>

fun zero :: "kind \<Rightarrow> numeric" where
  "zero (UnitlessZero byp) = Zero byp Usual"
| "zero (UnitZero k z zeroUnit) = StypDimension z (Fin 0) zeroUnit (UnitZero k z zeroUnit) Usual"

text \<open>
  The constructors. \<^verbatim>\<open>StypCalcBase\<close> stores \<^verbatim>\<open>left.usual()\<close>, and \<^verbatim>\<open>StypAddSub\<close>
  passes \<^verbatim>\<open>right.usual()\<close> to it, so a constructor may allocate the usual variants of its
  operands: the right one while the arguments of \<^verbatim>\<open>super\<close> are evaluated, then the
  object itself, then the left one. \<^verbatim>\<open>prioritize\<close> returns the receiver when the
  priority is the one asked for and builds a new object otherwise; on a \<^verbatim>\<open>Zero\<close> it
  returns the object that \<^verbatim>\<open>ZeroByPriority\<close> keeps for the priority.
\<close>

definition new_StypDimension :: "number \<Rightarrow> string \<Rightarrow> kind \<times> priority \<Rightarrow> numeric alloc" where
  "new_StypDimension v u opts s = (StypDimension s v u (fst opts) (snd opts), Suc s)"

function (sequential) prioritize :: "numeric \<Rightarrow> priority \<Rightarrow> numeric alloc"
  and new_StypAddSub :: "numeric \<Rightarrow> addsub_op \<Rightarrow> numeric \<Rightarrow> kind \<times> priority \<Rightarrow> numeric alloc"
  and new_StypMulDiv :: "numeric \<Rightarrow> muldiv_op \<Rightarrow> number \<Rightarrow> kind \<times> priority \<Rightarrow> numeric alloc"
where
  "prioritize (Zero byp q) p s = (Zero byp p, s)"
| "prioritize (StypDimension i v u d q) p s =
     (if q = p then (StypDimension i v u d q, s) else new_StypDimension v u (d, p) s)"
| "prioritize (StypAddSub i l op r d q) p s =
     (if q = p then (StypAddSub i l op r d q, s) else new_StypAddSub l op r (d, p) s)"
| "prioritize (StypMulDiv i l op r d q) p s =
     (if q = p then (StypMulDiv i l op r d q, s) else new_StypMulDiv l op r (d, p) s)"
| "new_StypAddSub l op r opts s =
     (let (r', s1) = prioritize r Usual s;
          (l', s2) = prioritize l Usual (Suc s1)
      in (StypAddSub s1 l' op r' (fst opts) (snd opts), s2))"
| "new_StypMulDiv l op r opts s =
     (let (l', s1) = prioritize l Usual (Suc s)
      in (StypMulDiv s l' op r (fst opts) (snd opts), s1))"
  by pat_completeness auto
termination
  by (relation "measure (\<lambda>x. case x of
        Inl (n, p, s) \<Rightarrow> 2 * size n
      | Inr (Inl (l, op, r, opts, s)) \<Rightarrow> 2 * (size l + size r) + 1
      | Inr (Inr (l, op, r, opts, s)) \<Rightarrow> 2 * size l + 1)") auto

definition usual :: "numeric \<Rightarrow> numeric alloc" where
  "usual v = prioritize v Usual"

definition important :: "numeric \<Rightarrow> numeric alloc" where
  "important v = prioritize v Important"

text \<open>
  \<^verbatim>\<open>stypDimension(val, unit, opts)\<close>: a new dimension, or the zero of the kind with the
  priority of \<^verbatim>\<open>opts\<close> when \<^verbatim>\<open>val\<close> is falsy.
\<close>

definition stypDimension :: "number \<Rightarrow> string \<Rightarrow> kind \<times> priority \<Rightarrow> numeric alloc" where
  "stypDimension v u opts s =
     (if truthy v then new_StypDimension v u opts s
      else prioritize (zero (fst opts)) (snd opts) s)"

definition opts_of :: "numeric \<Rightarrow> kind \<times> priority" where
  "opts_of v = (dim_of v, priority_of v)"

definition stypAddSub :: "numeric \<Rightarrow> addsub_op \<Rightarrow> numeric \<Rightarrow> numeric alloc" where
  "stypAddSub left op right s =
     (if type_of right = Type0 then (left, s) else new_StypAddSub left op right (opts_of left) s)"

definition stypMul :: "numeric \<Rightarrow> number \<Rightarrow> numeric alloc" where
  "stypMul left right s =
     (if \<not> truthy right then prioritize (zero (dim_of left)) (priority_of left) s
      else if strict_eq right (Fin 1) then prioritize left (priority_of left) s
      else new_StypMulDiv left Times right (opts_of left) s)"

definition stypDiv :: "numeric \<Rightarrow> number \<Rightarrow> numeric alloc" where
  "stypDiv left right s =
     (if strict_eq right (Fin 1) then prioritize left (priority_of left) s
      else new_StypMulDiv left Divide right (opts_of left) s)"

text \<open>The methods, one equation for each class that implements them.\<close>

fun negate :: "numeric \<Rightarrow> numeric alloc" where
  "negate (Zero byp p) s = (Zero byp p, s)"
| "negate (StypDimension i v u d p) s = stypDimension (js_neg v) u (d, p) s"
| "negate (StypAddSub i l op r d p) s =
     (if op = Minus then new_StypAddSub r op l (d, p) s
      else (let (l', s1) = negate l s in new_StypAddSub l' Minus r (d, p) s1))"
| "negate (StypMulDiv i l op r d p) s = new_StypMulDiv l op (js_neg r) (d, p) s"

fun add :: "numeric \<Rightarrow> numeric \<Rightarrow> numeric alloc" where
  "add (Zero byp p) addendum s = prioritize addendum p s"
| "add (StypDimension i v u d p) (StypDimension j w u' d' p') s =
     (if u = u' then stypDimension (js_add v w) u (d, p) s
      else stypAddSub (StypDimension i v u d p) Plus (StypDimension j w u' d' p') s)"
| "add this addendum s = stypAddSub this Plus addendum s"

fun sub :: "numeric \<Rightarrow> numeric \<Rightarrow> numeric alloc" where
  "sub (Zero byp p) subtrahend s =
     (let (n, s1) = negate subtrahend s in prioritize n p s1)"
| "sub (StypDimension i v u d p) (StypDimension j w u' d' p') s =
     (if u = u' then stypDimension (js_sub v w) u (d, p) s
      else stypAddSub (StypDimension i v u d p) Minus (StypDimension j w u' d' p') s)"
| "sub this subtrahend s = stypAddSub this Minus subtrahend s"

fun mul :: "numeric \<Rightarrow> number \<Rightarrow> numeric alloc" where
  "mul (Zero byp p) multiplier s = (Zero byp p, s)"
| "mul (StypDimension i v u d p) multiplier s =
     (if strict_eq multiplier (Fin 1) then (StypDimension i v u d p, s)
      else stypDimension (js_mul v multiplier) u (d, p) s)"
| "mul (StypAddSub i l op r d p) multiplier s = stypMul (StypAddSub i l op r d p) multiplier s"
| "mul (StypMulDiv i l op r d p) multiplier s =
     (let (n, s1) = (if op = Times then stypMul l (js_mul r multiplier) s
                     else stypDiv l (js_div r multiplier) s)
      in prioritize n p s1)"

fun div' :: "numeric \<Rightarrow> number \<Rightarrow> numeric alloc" where
  "div' (Zero byp p) divisor s = (Zero byp p, s)"
| "div' (StypDimension i v u d p) divisor s =
     (if strict_eq divisor (Fin 1) then (StypDimension i v u d p, s)
      else stypDimension (js_div v divisor) u (d, p) s)"
| "div' (StypAddSub i l op r d p) divisor s = stypDiv (StypAddSub i l op r d p) divisor s"
| "div' (StypMulDiv i l op r d p) divisor s =
     (let (n, s1) = (if op = Divide then stypDiv l (js_mul r divisor) s
                     else stypMul l (js_div r divisor) s)
      in prioritize n p s1)"

text \<open>
  The two factories of dimension kinds and the method \<^verbatim>\<open>of\<close> of a kind. A kind with a
  unitless zero allocates itself, its \<^verbatim>\<open>ZeroByPriority\<close> and the two \<^verbatim>\<open>Zero\<close> objects;
  a kind whose zero has a unit allocates itself and that one dimension.
\<close>

definition unitlessZeroDimensionKind :: "kind alloc" where
  "unitlessZeroDimensionKind s =
     (UnitlessZero \<lparr>zbp_oid = s + 1, zbp_dim = s, zbp_usual = s + 2, zbp_important = s + 3\<rparr>,
      s + 4)"

definition unitZeroDimensionKind :: "string \<Rightarrow> kind alloc" where
  "unitZeroDimensionKind zeroUnit s = (UnitZero s (s + 1) zeroUnit, s + 2)"

fun kind_of :: "kind \<Rightarrow> number \<Rightarrow> string \<Rightarrow> numeric alloc" where
  "kind_of (UnitlessZero byp) v u s =
     (if truthy v then new_StypDimension v u (UnitlessZero byp, Usual) s
      else (zero (UnitlessZero byp), s))"
| "kind_of (UnitZero k z zeroUnit) v u s = new_StypDimension v u (UnitZero k z zeroUnit, Usual) s"

text \<open>
  What the constructors guarantee of the nodes they build: the operands are stored in
  their usual variants, and a multiplication or division node has the kind of its left
  operand. Every value that \<^verbatim>\<open>of\<close> and the methods return from such values is such a
  value (the lemmas \<open>built_kind_of\<close>, \<open>built_add\<close>, \<open>built_sub\<close>, \<open>built_mul\<close>,
  \<open>built_div\<close>, \<open>built_negate\<close> and \<open>built_prioritize\<close>).
\<close>

fun built :: "numeric \<Rightarrow> bool" where
  "built (Zero byp p) = True"
| "built (StypDimension i v u d p) = True"
| "built (StypAddSub i l op r d p) =
     (built l \<and> built r \<and> priority_of l = Usual \<and> priority_of r = Usual)"
| "built (StypMulDiv i l op r d p) = (built l \<and> priority_of l = Usual \<and> d = dim_of l)"


section \<open>Property values\<close>

text \<open>
  \<^verbatim>\<open>StypValue\<close> of \<^verbatim>\<open>src/value/value.ts\<close>: a string, a number, a boolean,
  \<^verbatim>\<open>undefined\<close> or a structured numeric value.
\<close>

datatype stypValue =
    VUndefined
  | VBoolean bool
  | VNumber number
  | VString string
  | VObject numeric

text \<open>The comparison \<^verbatim>\<open>===\<close> of two property values.\<close>

fun strict_equal :: "stypValue \<Rightarrow> stypValue \<Rightarrow> bool" where
  "strict_equal VUndefined VUndefined = True"
| "strict_equal (VBoolean a) (VBoolean b) = (a = b)"
| "strict_equal (VNumber a) (VNumber b) = strict_eq a b"
| "strict_equal (VString a) (VString b) = (a = b)"
| "strict_equal (VObject a) (VObject b) = (oid_of a = oid_of b)"
| "strict_equal a b = False"

fun value_size :: "stypValue \<Rightarrow> nat" where
  "value_size (VObject obj) = Suc (size obj)"
| "value_size v = 0"

text \<open>
  The method \<^verbatim>\<open>is\<close> of the four classes and the function \<^verbatim>\<open>stypValuesEqual\<close>, which
  \<^verbatim>\<open>StypCalcBase.is\<close> calls on the right operands. The operator of an addition or
  subtraction is never the operator of a multiplication or division.
\<close>

function (sequential) is' :: "numeric \<Rightarrow> stypValue \<Rightarrow> bool"
  and stypValuesEqual :: "stypValue \<Rightarrow> stypValue \<Rightarrow> bool"
where
  "is' (Zero byp p) other =
     (if strict_equal (VObject (Zero byp p)) other then True
      else (case other of
          VObject obj \<Rightarrow> type_of obj = Type0 \<and> priority_of obj = p
        | VNumber n \<Rightarrow> if strict_eq n (Fin 0) then p = Usual else False
        | VString str \<Rightarrow>
            if str = ''0'' then p = Usual
            else if str = ''0 !important'' then p = Important
            else False
        | _ \<Rightarrow> False))"
| "is' (StypDimension i v u d p) other =
     (if strict_equal other (VObject (StypDimension i v u d p)) then True
      else (case other of
          VObject (StypDimension j w u' d' p') \<Rightarrow> u = u' \<and> strict_eq v w \<and> p = p'
        | _ \<Rightarrow> False))"
| "is' (StypAddSub i l op r d p) other =
     (if strict_equal (VObject (StypAddSub i l op r d p)) other then True
      else (case other of
          VObject (StypAddSub j l' op' r' d' p') \<Rightarrow>
            op = op' \<and> is' l (VObject l') \<and> stypValuesEqual (VObject r) (VObject r') \<and> p = p'
        | _ \<Rightarrow> False))"
| "is' (StypMulDiv i l op r d p) other =
     (if strict_equal (VObject (StypMulDiv i l op r d p)) other then True
      else (case other of
          VObject (StypMulDiv j l' op' r' d' p') \<Rightarrow>
            op = op' \<and> is' l (VObject l') \<and> stypValuesEqual (VNumber r) (VNumber r') \<and> p = p'
        | _ \<Rightarrow> False))"
| "stypValuesEqual first second =
     (if strict_equal first second then True
      else (case first of
          VObject a \<Rightarrow> is' a second
        | _ \<Rightarrow> (case second of VObject b \<Rightarrow> is' b first | _ \<Rightarrow> False)))"
  by pat_completeness auto
termination
  by (relation "measure (\<lambda>x. case x of
        Inl (this, other) \<Rightarrow> 2 * (size this + value_size other)
      | Inr (first, second) \<Rightarrow> 2 * (value_size first + value_size second) + 1)") auto

text \<open>
  \<^verbatim>\<open>stypSplitPriority\<close> returns a tuple of at most two elements: \<^verbatim>\<open>[]\<close>,
  \<^verbatim>\<open>[value]\<close> or \<^verbatim>\<open>[value, priority]\<close>. The constant \<^verbatim>\<open>IMPORTANT_CSS_SUFFIX\<close> is
  imported from a module that is not part of the sources at hand, so it is a parameter.
\<close>

datatype split = Split0 | Split1 stypValue | Split2 stypValue priority

fun split_value :: "split \<Rightarrow> stypValue" where
  "split_value Split0 = VUndefined"
| "split_value (Split1 v) = v"
| "split_value (Split2 v p) = v"

fun split_priority :: "split \<Rightarrow> priority" where
  "split_priority Split0 = Usual"
| "split_priority (Split1 v) = Usual"
| "split_priority (Split2 v p) = p"

fun stypSplitPriority :: "string \<Rightarrow> stypValue \<Rightarrow> split alloc" where
  "stypSplitPriority suffix VUndefined s = (Split0, s)"
| "stypSplitPriority suffix (VObject obj) s =
     (if priority_of obj = Important
      then (let (u, s1) = usual obj s in (Split2 (VObject u) (priority_of obj), s1))
      else (Split1 (VObject obj), s))"
| "stypSplitPriority suffix (VString str) s =
     (if endsWith str suffix
      then (Split2 (VString (trim (substring str 0 (length str - length suffix)))) Important, s)
      else (Split1 (VString str), s))"
| "stypSplitPriority suffix v s = (Split1 v, s)"


section \<open>Selectors\<close>

text \<open>
  A normalized selector is an array of parts and combinators; a combinator is a string,
  a part is an object with the optional fields \<^verbatim>\<open>ns\<close>, \<^verbatim>\<open>e\<close>, \<^verbatim>\<open>i\<close>, \<^verbatim>\<open>c\<close>,
  \<^verbatim>\<open>s\<close> and \<^verbatim>\<open>$\<close>. \<^verbatim>\<open>isCombinator\<close> tells the two apart.
\<close>

record normalizedPart =
  part_ns :: "string option"
  part_e :: "string option"
  part_i :: "string option"
  part_c :: "string list option"
  part_s :: "string option"
  part_q :: "string list option"

datatype item = Combinator string | Part normalizedPart

fun isCombinator :: "item \<Rightarrow> bool" where
  "isCombinator (Combinator c) = True"
| "isCombinator (Part p) = False"

text \<open>
  \<^verbatim>\<open>formatItem\<close> and \<^verbatim>\<open>formatSelector\<close> of \<^verbatim>\<open>src/selector/selector-text.impl.ts\<close>.
  The escaping function \<^verbatim>\<open>cssescId\<close> is imported from elsewhere and is a parameter, as
  \<^verbatim>\<open>formatRaw\<close> is in the source. A template literal prints an absent element name as
  \<^verbatim>\<open>undefined\<close>; the tests \<^verbatim>\<open>if (i)\<close> and \<^verbatim>\<open>if (s)\<close> fail on the empty string.
\<close>

definition formatPart ::
  "(string \<Rightarrow> string) \<Rightarrow> (string \<Rightarrow> string) \<Rightarrow> normalizedPart \<Rightarrow> string" where
  "formatPart cssescId formatRaw p =
     (let str0 = (case part_ns p of
                    Some ns \<Rightarrow> ns @ ''|'' @ (case part_e p of Some e \<Rightarrow> e | None \<Rightarrow> ''undefined'')
                  | None \<Rightarrow> (case part_e p of Some e \<Rightarrow> e | None \<Rightarrow> []));
          str1 = (case part_i p of
                    Some i \<Rightarrow> if i \<noteq> [] then str0 @ ''#'' @ cssescId i else str0
                  | None \<Rightarrow> str0);
          str2 = (case part_c p of
                    Some cs \<Rightarrow> foldl (\<lambda>result className. result @ ''.'' @ cssescId className) str1 cs
                  | None \<Rightarrow> str1)
      in (case part_s p of
            Some raw \<Rightarrow> if raw \<noteq> [] then str2 @ formatRaw raw else str2
          | None \<Rightarrow> str2))"

fun formatItem :: "(string \<Rightarrow> string) \<Rightarrow> item \<Rightarrow> (string \<Rightarrow> string) \<Rightarrow> string" where
  "formatItem cssescId (Combinator c) formatRaw = c"
| "formatItem cssescId (Part p) formatRaw = formatPart cssescId formatRaw p"

definition formatSelector ::
  "(string \<Rightarrow> string) \<Rightarrow> item list \<Rightarrow> (string \<Rightarrow> string) \<Rightarrow> string" where
  "formatSelector cssescId selector formatRaw =
     foldl (\<lambda>result item. result @ formatItem cssescId item formatRaw) [] selector"

text \<open>
  \<^verbatim>\<open>ruleSelector\<close> of \<^verbatim>\<open>src/producer/produce-basic-style.ts\<close>. The normalization
  \<^verbatim>\<open>stypSelector\<close> and the option \<^verbatim>\<open>rootSelector\<close> are parameters; the argument is the
  selector of the rule, which is normalized already.
\<close>

definition ruleSelector :: "('sel \<Rightarrow> item list) \<Rightarrow> 'sel \<Rightarrow> item list \<Rightarrow> item list" where
  "ruleSelector stypSelector rootSelector selector =
     (case selector of
        [] \<Rightarrow> stypSelector rootSelector
      | first # rest \<Rightarrow>
          if isCombinator first then stypSelector rootSelector @ selector else selector)"




section \<open>Rendering a rule\<close>

text \<open>
  \<^verbatim>\<open>renderRule\<close> of \<^verbatim>\<open>src/producer/produce-basic-style.ts\<close> keeps, for one rule, the
  variable \<^verbatim>\<open>sheetRef\<close>: absent until a style sheet has been added for the rule. A style
  sheet is the list of its \<^verbatim>\<open>cssRules\<close>. \<^verbatim>\<open>deleteRule\<close> is the method of the CSS object
  model, which throws on an index that is not one of a rule.
\<close>

datatype dom_error = IndexSizeError

definition deleteRule :: "'r list \<Rightarrow> nat \<Rightarrow> dom_error + 'r list" where
  "deleteRule sheet index =
     (if index < length sheet then Inr (take index sheet @ drop (Suc index) sheet)
      else Inl IndexSizeError)"

function clearProperties :: "'r list \<Rightarrow> dom_error + 'r list" where
  "clearProperties sheet =
     (if length sheet \<noteq> 0
      then (case deleteRule sheet (length sheet - 1) of
              Inl err \<Rightarrow> Inl err
            | Inr sheet' \<Rightarrow> clearProperties sheet')
      else Inr sheet)"
  by pat_completeness auto
termination
  by (relation "measure length") (auto simp: deleteRule_def split: if_splits)

declare clearProperties.simps [simp del]

text \<open>
  The job that \<^verbatim>\<open>renderProperties\<close> schedules. The chain of renderers is a parameter:
  for the properties given it either never asks the producer for its style sheet, or it
  writes to the sheet it gets. The sheet is added on the first request
  (\<^verbatim>\<open>addStyleSheet\<close>, whose new sheet is a parameter); the job clears the sheet of an
  earlier run before the producer is built.
\<close>

definition renderJob ::
  "'r list \<Rightarrow> ('p \<Rightarrow> ('r list \<Rightarrow> 'r list) option) \<Rightarrow> 'p \<Rightarrow> 'r list option
     \<Rightarrow> dom_error + 'r list option" where
  "renderJob addStyleSheet render properties sheetRef =
     (case (case sheetRef of
              Some sheet \<Rightarrow> (case clearProperties sheet of
                               Inl err \<Rightarrow> Inl err
                             | Inr cleared \<Rightarrow> Inr (Some cleared))
            | None \<Rightarrow> Inr None) of
        Inl err \<Rightarrow> Inl err
      | Inr ref \<Rightarrow>
          (case render properties of
             None \<Rightarrow> Inr ref
           | Some write \<Rightarrow>
               Inr (Some (write (case ref of Some sheet \<Rightarrow> sheet | None \<Rightarrow> addStyleSheet)))))"

text \<open>
  Every property set the rule emits schedules one such job, and the schedule of the rule
  runs its jobs one after the other: a run of jobs, for the property sets in their order,
  stopped by the first error.
\<close>

fun renderJobs ::
  "'r list \<Rightarrow> ('p \<Rightarrow> ('r list \<Rightarrow> 'r list) option) \<Rightarrow> 'p list \<Rightarrow> 'r list option
     \<Rightarrow> dom_error + 'r list option" where
  "renderJobs addStyleSheet render [] sheetRef = Inr sheetRef"
| "renderJobs addStyleSheet render (properties # later) sheetRef =
     (case renderJob addStyleSheet render properties sheetRef of
        Inl err \<Rightarrow> Inl err
      | Inr ref \<Rightarrow> renderJobs addStyleSheet render later ref)"


section \<open>Sample values\<close>

text \<open>
  A kind of lengths with a unitless zero, a kind of angles whose zero is \<^verbatim>\<open>0deg\<close>, and a
  few values of both, as the factories and \<^verbatim>\<open>of\<close> build them from an allocator at 0.
\<close>

definition lengthZeros :: zeroByPriority where
  "lengthZeros = \<lparr>zbp_oid = 1, zbp_dim = 0, zbp_usual = 2, zbp_important = 3\<rparr>"

definition lengthKind :: kind where
  "lengthKind = UnitlessZero lengthZeros"

definition angleKind :: kind where
  "angleKind = UnitZero 4 5 ''deg''"

definition px12 :: numeric where
  "px12 = StypDimension 6 (Fin 12) ''px'' lengthKind Usual"

definition em2 :: numeric where
  "em2 = StypDimension 7 (Fin 2) ''em'' lengthKind Usual"

definition rad5 :: numeric where
  "rad5 = StypDimension 8 (Fin 5) ''rad'' angleKind Usual"

definition rad0 :: numeric where
  "rad0 = StypDimension 11 (Fin 0) ''rad'' angleKind Usual"

definition px12_plus_em2 :: numeric where
  "px12_plus_em2 = StypAddSub 9 px12 Plus em2 lengthKind Usual"

definition px12_plus_em2_times2 :: numeric where
  "px12_plus_em2_times2 = StypMulDiv 10 px12_plus_em2 Times (Fin 2) lengthKind Usual"

text \<open>The selectors \<^verbatim>\<open>'.root'\<close> and \<^verbatim>\<open>{ c: ['nested'] }\<close>, normalized.\<close>

definition rootPart :: normalizedPart where
  "rootPart = \<lparr>part_ns = None, part_e = None, part_i = None, part_c = None,
     part_s = Some ''.root'', part_q = None\<rparr>"

definition nestedPart :: normalizedPart where
  "nestedPart = \<lparr>part_ns = None, part_e = None, part_i = None, part_c = Some [''nested''],
     part_s = None, part_q = None\<rparr>"


section \<open>Lemmas on the model\<close>

lemma sample_kinds:
  "unitlessZeroDimensionKind 0 = (lengthKind, 4)"
  "unitZeroDimensionKind ''deg'' 4 = (angleKind, 6)"
  by (simp_all add: unitlessZeroDimensionKind_def lengthKind_def lengthZeros_def
      unitZeroDimensionKind_def angleKind_def)

lemma sample_values:
  "kind_of lengthKind (Fin 12) ''px'' 6 = (px12, 7)"
  "kind_of lengthKind (Fin 2) ''em'' 7 = (em2, 8)"
  "kind_of angleKind (Fin 5) ''rad'' 8 = (rad5, 9)"
  "kind_of angleKind (Fin 0) ''rad'' 11 = (rad0, 12)"
  "add px12 em2 9 = (px12_plus_em2, 10)"
  by (simp_all add: lengthKind_def angleKind_def px12_def em2_def rad5_def rad0_def
      px12_plus_em2_def new_StypDimension_def stypAddSub_def opts_of_def)


lemma strict_eq_iff: "strict_eq a b \<longleftrightarrow> a = b \<and> a \<noteq> NaN"
  by (cases a; cases b) simp_all


lemma falsy_iff: "\<not> truthy v \<longleftrightarrow> v = Fin 0 \<or> v = NaN"
  by (cases v) simp_all

lemma round_zero: "roundTiesToEven 0 = Fin 0"
  by (simp add: roundTiesToEven_def)

lemma round_small:
  "roundTiesToEven 2 = Fin 2" "roundTiesToEven 6 = Fin 6" "roundTiesToEven 24 = Fin 24"
  by code_simp+

text \<open>Nearest double, ties to even: \<open>2 ^ 53 + 1\<close> is not a double.\<close>

lemma round_tie: "js_add (Fin (2 ^ 53)) (Fin 1) = Fin (2 ^ 53)"
proof -
  have "roundTiesToEven (2 ^ 53 + 1) = Fin (2 ^ 53)"
    by code_simp
  then show ?thesis
    by simp
qed

lemma falsy_mul_zero: "\<not> truthy (js_mul v (Fin 0))"
  by (cases v) (simp_all add: round_zero)

lemma priority_of_zero: "priority_of (zero d) = Usual"
  by (cases d) simp_all

lemma prioritize_same: "priority_of x = p \<Longrightarrow> prioritize x p s = (x, s)"
  by (cases x) auto

lemma priority_of_prioritize: "priority_of (fst (prioritize x p s)) = p"
  by (cases x) (auto simp: new_StypDimension_def split: prod.splits)

lemma add_calc:
  assumes "type_of a \<noteq> Type0" "type_of b \<noteq> Type0"
    and "\<not> (type_of a = TypeDimension \<and> type_of b = TypeDimension \<and> unit_of a = unit_of b)"
  shows "add a b s = new_StypAddSub a Plus b (dim_of a, priority_of a) s"
    and "sub a b s = new_StypAddSub a Minus b (dim_of a, priority_of a) s"
  using assms by (cases a; cases b; simp add: stypAddSub_def opts_of_def)+

lemma mul_div_by_one_same:
  "\<forall>i l op r d p. v \<noteq> StypMulDiv i l op r d p \<Longrightarrow>
     mul v (Fin 1) s = (v, s) \<and> div' v (Fin 1) s = (v, s)"
  by (cases v) (simp_all add: stypMul_def stypDiv_def)

lemma mul_folds:
  assumes "priority_of l = Usual" "truthy (js_mul r m)" "\<not> strict_eq (js_mul r m) (Fin 1)"
  shows "\<exists>k. fst (mul (StypMulDiv i l Times r d p) m s) =
       StypMulDiv k l Times (js_mul r m) (dim_of l) p"
proof -
  have usual_l: "prioritize l Usual t = (l, t)" for t
    using assms(1) by (rule prioritize_same)
  have node: "stypMul l (js_mul r m) s =
      (StypMulDiv s l Times (js_mul r m) (dim_of l) Usual, Suc s)"
    using assms by (simp add: stypMul_def opts_of_def usual_l)
  have m: "mul (StypMulDiv i l Times r d p) m s =
      prioritize (StypMulDiv s l Times (js_mul r m) (dim_of l) Usual) p (Suc s)"
    by (simp add: node)
  show ?thesis
  proof (cases p)
    case Usual
    then show ?thesis unfolding m by simp
  next
    case Important
    then show ?thesis unfolding m by (simp add: usual_l)
  qed
qed

text \<open>
  A division node times 0 is not a zero: \<^verbatim>\<open>StypMulDiv.mul\<close> divides the divisor by 0
  and \<^verbatim>\<open>stypDiv\<close> builds the node \<^verbatim>\<open>x / Infinity\<close>.
\<close>

lemma division_node_times_zero:
  "mul (StypMulDiv 10 px12_plus_em2 Divide (Fin 2) lengthKind Usual) (Fin 0) 11 =
     (StypMulDiv 11 px12_plus_em2 Divide PosInf lengthKind Usual, 12)"
  by (simp add: px12_plus_em2_def stypDiv_def opts_of_def signed_inf_def px12_def em2_def)

lemma substring_0: "substring str 0 n = take n str"
  by (simp add: substring_def Let_def min_def)

lemma foldl_formatItem:
  "foldl (\<lambda>result item. result @ formatItem esc item raw) acc zs
     = acc @ foldl (\<lambda>result item. result @ formatItem esc item raw) [] zs"
proof (induction zs arbitrary: acc)
  case Nil
  show ?case by simp
next
  case (Cons z zs)
  have "foldl (\<lambda>result item. result @ formatItem esc item raw) (acc @ formatItem esc z raw) zs
      = (acc @ formatItem esc z raw) @ foldl (\<lambda>result item. result @ formatItem esc item raw) [] zs"
    by (rule Cons.IH)
  moreover have "foldl (\<lambda>result item. result @ formatItem esc item raw) (formatItem esc z raw) zs
      = formatItem esc z raw @ foldl (\<lambda>result item. result @ formatItem esc item raw) [] zs"
    by (rule Cons.IH)
  ultimately show ?case by simp
qed

lemma formatSelector_append:
  "formatSelector esc (xs @ ys) raw = formatSelector esc xs raw @ formatSelector esc ys raw"
  unfolding formatSelector_def foldl_append by (rule foldl_formatItem)

lemma formatSelector_Cons:
  "formatSelector esc (x # xs) raw = formatItem esc x raw @ formatSelector esc xs raw"
  using formatSelector_append [of esc "[x]" xs raw] by (simp add: formatSelector_def)

lemma clearProperties_empty: "clearProperties sheet = Inr []"
proof (induction sheet rule: clearProperties.induct)
  case (1 sheet)
  show ?case
  proof (cases "length sheet \<noteq> 0")
    case True
    then have d: "deleteRule sheet (length sheet - 1) = Inr (butlast sheet)"
      by (simp add: deleteRule_def butlast_conv_take)
    have "clearProperties (butlast sheet) = Inr []"
      using "1.IH" [OF True d] .
    then show ?thesis
      using True d by (subst clearProperties.simps) simp
  next
    case False
    then show ?thesis
      by (subst clearProperties.simps) simp
  qed
qed

lemma renderJob_Some:
  "renderJob addStyleSheet render properties (Some sheet) =
     Inr (Some (case render properties of None \<Rightarrow> [] | Some write \<Rightarrow> write []))"
  by (simp add: renderJob_def clearProperties_empty split: option.splits)

lemma renderJobs_last:
  "renderJobs addStyleSheet render (earlier @ [properties]) (Some sheet) =
     renderJob addStyleSheet render properties (Some [])"
proof (induction earlier arbitrary: sheet)
  case Nil
  show ?case by (simp add: renderJob_Some)
next
  case (Cons first earlier)
  show ?case
    using Cons.IH by (simp add: renderJob_Some [of _ _ first])
qed










lemma built_operands:
  "built (StypAddSub i l op r d p) \<Longrightarrow> priority_of l = Usual \<and> priority_of r = Usual"
  "built (StypMulDiv i l scale n d p) \<Longrightarrow> priority_of l = Usual \<and> d = dim_of l"
  by simp_all

lemma dim_of_prioritize: "dim_of (fst (prioritize x p s)) = dim_of x"
  by (cases x) (auto simp: new_StypDimension_def split: prod.splits)

lemma built_prioritize: "built x \<Longrightarrow> built (fst (prioritize x p s))"
  by (cases x) (auto simp: new_StypDimension_def prioritize_same)

lemma built_zero: "built (zero d)"
  by (cases d) simp_all

lemma built_stypDimension: "built (fst (stypDimension v u opts s))"
  by (simp add: stypDimension_def new_StypDimension_def built_prioritize built_zero)

lemma built_new_StypAddSub:
  "built l \<Longrightarrow> built r \<Longrightarrow> built (fst (new_StypAddSub l op r opts s))"
  by (auto split: prod.splits)
    (metis built_prioritize priority_of_prioritize fst_conv)+

lemma built_new_StypMulDiv:
  "built l \<Longrightarrow> built (fst (new_StypMulDiv l op r (dim_of l, p) s))"
  by (auto split: prod.splits)
    (metis built_prioritize priority_of_prioritize dim_of_prioritize fst_conv)+

lemma built_negate: "built x \<Longrightarrow> built (fst (negate x s))"
proof (induction x arbitrary: s)
  case (StypAddSub i l op r d p)
  then have l: "built (fst (negate l s))" and r: "built r" and l0: "built l"
    by simp_all
  show ?case
  proof (cases op)
    case Plus
    obtain l' s1 where n: "negate l s = (l', s1)" by (cases "negate l s")
    then have "built l'" using l by simp
    then have "built (fst (new_StypAddSub l' Minus r (d, p) s1))"
      using r by (rule built_new_StypAddSub)
    then show ?thesis
      using Plus n by (simp del: new_StypAddSub.simps)
  next
    case Minus
    have "built (fst (new_StypAddSub r Minus l (d, p) s))"
      using r l0 by (rule built_new_StypAddSub)
    then show ?thesis
      using Minus by (simp del: new_StypAddSub.simps)
  qed
next
  case (StypMulDiv i l op r d p)
  then have "built l" "d = dim_of l" by simp_all
  then show ?case
    using built_new_StypMulDiv [of l op "js_neg r" p s]
    by (simp del: new_StypMulDiv.simps)
qed (simp_all add: built_stypDimension)

lemma built_stypAddSub: "built l \<Longrightarrow> built r \<Longrightarrow> built (fst (stypAddSub l op r s))"
  by (simp add: stypAddSub_def built_new_StypAddSub del: new_StypAddSub.simps)

lemma built_stypMul: "built l \<Longrightarrow> built (fst (stypMul l r s))"
  by (simp add: stypMul_def opts_of_def built_new_StypMulDiv built_prioritize built_zero
      del: new_StypMulDiv.simps)

lemma built_stypDiv: "built l \<Longrightarrow> built (fst (stypDiv l r s))"
  by (simp add: stypDiv_def opts_of_def built_new_StypMulDiv built_prioritize
      del: new_StypMulDiv.simps)

lemma built_add: "built a \<Longrightarrow> built b \<Longrightarrow> built (fst (add a b s))"
  by (cases a; cases b)
    (simp_all add: built_prioritize built_stypDimension built_stypAddSub del: prioritize.simps)

lemma built_sub: "built a \<Longrightarrow> built b \<Longrightarrow> built (fst (sub a b s))"
proof (cases a)
  case (Zero byp p)
  assume "built b"
  then have "built (fst (negate b s))" by (rule built_negate)
  then show ?thesis
    using Zero by (simp add: built_prioritize split: prod.splits del: prioritize.simps)
      (metis built_prioritize fst_conv)
next
  case (StypDimension i v u d p)
  assume "built a" "built b"
  then show ?thesis
    using StypDimension built_stypAddSub [of a b Minus s]
    by (cases b) (simp_all add: built_stypDimension)
next
  case (StypAddSub i l op r d p)
  assume "built a" "built b"
  then show ?thesis
    using StypAddSub built_stypAddSub [of a b Minus s] by simp
next
  case (StypMulDiv i l op r d p)
  assume "built a" "built b"
  then show ?thesis
    using StypMulDiv built_stypAddSub [of a b Minus s] by simp
qed

lemma built_mul: "built v \<Longrightarrow> built (fst (mul v m s))"
proof (cases v)
  case (StypAddSub i l op r d p)
  assume "built v"
  then show ?thesis
    using StypAddSub built_stypMul [of v m s] by simp
next
  case (StypMulDiv i l op r d p)
  assume "built v"
  then have l: "built l" using StypMulDiv by simp
  have "built (fst (stypMul l (js_mul r m) s))" "built (fst (stypDiv l (js_div r m) s))"
    using l by (rule built_stypMul, rule built_stypDiv)
  then show ?thesis
    using StypMulDiv
    by (auto split: prod.splits simp del: prioritize.simps)
      (metis built_prioritize fst_conv)+
qed (simp_all add: built_stypDimension)

lemma built_div: "built v \<Longrightarrow> built (fst (div' v m s))"
proof (cases v)
  case (StypAddSub i l op r d p)
  assume "built v"
  then show ?thesis
    using StypAddSub built_stypDiv [of v m s] by simp
next
  case (StypMulDiv i l op r d p)
  assume "built v"
  then have l: "built l" using StypMulDiv by simp
  have "built (fst (stypDiv l (js_mul r m) s))" "built (fst (stypMul l (js_div r m) s))"
    using l by (rule built_stypDiv, rule built_stypMul)
  then show ?thesis
    using StypMulDiv
    by (auto split: prod.splits simp del: prioritize.simps)
      (metis built_prioritize fst_conv)+
qed (simp_all add: built_stypDimension)

lemma built_kind_of: "built (fst (kind_of d v u s))"
  by (cases d) (simp_all add: new_StypDimension_def)


section \<open>Zero\<close>




text \<open>
  C9. The method \<^verbatim>\<open>is\<close> of a \<^verbatim>\<open>Zero\<close> accepts scalars. For every value that is
  not an object, a zero of usual priority equals it exactly when it is the number 0 or the
  string \<^verbatim>\<open>'0'\<close> (so not \<^verbatim>\<open>'0 !important'\<close>), and a zero of important priority equals
  it exactly when it is the string \<^verbatim>\<open>'0 !important'\<close> (so neither 0 nor \<^verbatim>\<open>'0'\<close>).
\<close>

theorem zero_is_scalar:
  "(\<forall>obj. v \<noteq> VObject obj) \<Longrightarrow>
     is' (Zero byp Usual) v = (v = VNumber (Fin 0) \<or> v = VString ''0'')
     \<and> is' (Zero byp Important) v = (v = VString ''0 !important'')"
  by (cases v) (simp_all add: strict_eq_iff)

theorem zero_is_scalar_witness:
  "is' (Zero lengthZeros Usual) (VNumber (Fin 0))
   \<and> \<not> is' (Zero lengthZeros Important) (VNumber (Fin 0))"
  using zero_is_scalar [of "VNumber (Fin 0)" lengthZeros] by simp


section \<open>Addition and subtraction\<close>

text \<open>
  C3, as stated: for two values \<open>a\<close> and \<open>b\<close> of one kind that are not both dimensions
  of one unit, \<^verbatim>\<open>a.add(b)\<close> is a \<^verbatim>\<open>calc\<close> node. It is not when \<open>b\<close> is a zero:
  \<^verbatim>\<open>stypAddSub\<close> returns its left operand, here the dimension \<^verbatim>\<open>12px\<close>.
\<close>

theorem add_zero_counterexample:
  "dim_of px12 = dim_of (Zero lengthZeros Usual)
   \<and> \<not> (type_of px12 = TypeDimension \<and> type_of (Zero lengthZeros Usual) = TypeDimension)
   \<and> add px12 (Zero lengthZeros Usual) 10 = (px12, 10)
   \<and> type_of (fst (add px12 (Zero lengthZeros Usual) 10)) \<noteq> TypeCalc"
  by (simp add: px12_def lengthKind_def stypAddSub_def)

text \<open>
  C3, amended. For two structured numeric values \<open>a\<close> and \<open>b\<close>:
  \<^item> if both are dimensions of the same unit, \<^verbatim>\<open>a.add(b)\<close> and \<^verbatim>\<open>a.sub(b)\<close> are a new
    dimension of value \<^verbatim>\<open>a.val + b.val\<close> and \<^verbatim>\<open>a.val - b.val\<close>, in that unit and with
    the kind and the priority of \<open>a\<close>, or, when that number is exactly 0, the zero of
    the kind of \<open>a\<close> prioritized as \<open>a\<close> is (nothing is said of a sum or difference
    that is \<^verbatim>\<open>NaN\<close>);
  \<^item> if \<open>a\<close> is not a zero (type \<^verbatim>\<open>'0'\<close>) and \<open>b\<close> is one, both return \<open>a\<close> itself;
  \<^item> if \<open>a\<close> is a zero, \<^verbatim>\<open>a.add(b)\<close> is \<^verbatim>\<open>b.prioritize(a.priority)\<close> and
    \<^verbatim>\<open>a.sub(b)\<close> is \<^verbatim>\<open>b.negate().prioritize(a.priority)\<close>;
  \<^item> in every other case the result is a \<^verbatim>\<open>calc\<close> node of operator \<^verbatim>\<open>+\<close> or \<^verbatim>\<open>-\<close>
    whose operands are the usual variants of \<open>a\<close> and \<open>b\<close>, with the kind and the
    priority of \<open>a\<close>.
\<close>

theorem add_sub_cases:
  "(a = StypDimension i v u d p \<and> b = StypDimension j w u d' p' \<longrightarrow>
      (js_add v w \<noteq> NaN \<longrightarrow>
         add a b s = (if js_add v w = Fin 0 then prioritize (zero d) p s
                      else (StypDimension s (js_add v w) u d p, Suc s)))
      \<and> (js_sub v w \<noteq> NaN \<longrightarrow>
         sub a b s = (if js_sub v w = Fin 0 then prioritize (zero d) p s
                      else (StypDimension s (js_sub v w) u d p, Suc s))))
   \<and> (type_of a \<noteq> Type0 \<and> type_of b = Type0 \<longrightarrow> add a b s = (a, s) \<and> sub a b s = (a, s))
   \<and> (a = Zero byp q \<longrightarrow>
      add a b s = prioritize b q s
      \<and> sub a b s = prioritize (fst (negate b s)) q (snd (negate b s)))
   \<and> (type_of a \<noteq> Type0 \<and> type_of b \<noteq> Type0
        \<and> \<not> (type_of a = TypeDimension \<and> type_of b = TypeDimension \<and> unit_of a = unit_of b) \<longrightarrow>
      (\<exists>k s1 s2. fst (add a b s) =
          StypAddSub k (fst (usual a s1)) Plus (fst (usual b s2)) (dim_of a) (priority_of a))
      \<and> (\<exists>k s1 s2. fst (sub a b s) =
          StypAddSub k (fst (usual a s1)) Minus (fst (usual b s2)) (dim_of a) (priority_of a)))"
proof -
  have dims: "(js_add v w \<noteq> NaN \<longrightarrow>
         add a b s = (if js_add v w = Fin 0 then prioritize (zero d) p s
                      else (StypDimension s (js_add v w) u d p, Suc s)))
      \<and> (js_sub v w \<noteq> NaN \<longrightarrow>
         sub a b s = (if js_sub v w = Fin 0 then prioritize (zero d) p s
                      else (StypDimension s (js_sub v w) u d p, Suc s)))"
    if "a = StypDimension i v u d p" "b = StypDimension j w u d' p'"
  proof -
    have "add a b s = (if truthy (js_add v w) then (StypDimension s (js_add v w) u d p, Suc s)
                   else prioritize (zero d) p s)"
      "sub a b s = (if truthy (js_sub v w) then (StypDimension s (js_sub v w) u d p, Suc s)
                     else prioritize (zero d) p s)"
      using that by (simp_all add: stypDimension_def new_StypDimension_def)
    then show ?thesis
      using falsy_iff [of "js_add v w"] falsy_iff [of "js_sub v w"] by auto
  qed
  have zero_right: "add a b s = (a, s) \<and> sub a b s = (a, s)"
    if "type_of a \<noteq> Type0" "type_of b = Type0"
    using that by (cases a; cases b; simp add: stypAddSub_def)
  have zero_left: "add a b s = prioritize b q s
      \<and> sub a b s = prioritize (fst (negate b s)) q (snd (negate b s))"
    if "a = Zero byp q"
    using that by (simp split: prod.splits)
  have node: "\<exists>k s1 s2. fst (new_StypAddSub a op b (dim_of a, priority_of a) s) =
      StypAddSub k (fst (usual a s1)) op (fst (usual b s2)) (dim_of a) (priority_of a)" for op
    by (simp add: usual_def split: prod.splits) (metis fst_conv)
  have calc: "(\<exists>k s1 s2. fst (add a b s) =
          StypAddSub k (fst (usual a s1)) Plus (fst (usual b s2)) (dim_of a) (priority_of a))
      \<and> (\<exists>k s1 s2. fst (sub a b s) =
          StypAddSub k (fst (usual a s1)) Minus (fst (usual b s2)) (dim_of a) (priority_of a))"
    if "type_of a \<noteq> Type0" "type_of b \<noteq> Type0"
      "\<not> (type_of a = TypeDimension \<and> type_of b = TypeDimension \<and> unit_of a = unit_of b)"
    using add_calc [OF that, of s] node by simp
  show ?thesis
    using dims zero_right zero_left calc by blast
qed

theorem add_sub_cases_witness:
  "add px12 px12 10 = (StypDimension 10 (Fin 24) ''px'' lengthKind Usual, 11)
   \<and> sub px12 px12 10 = (Zero lengthZeros Usual, 10)
   \<and> sub px12 (Zero lengthZeros Important) 10 = (px12, 10)
   \<and> add (Zero lengthZeros Important) px12 10 =
       (StypDimension 10 (Fin 12) ''px'' lengthKind Important, 11)
   \<and> (\<exists>k. fst (add px12 em2 10) = StypAddSub k px12 Plus em2 lengthKind Usual)"
proof -
  have same_unit: "px12 = StypDimension 6 (Fin 12) ''px'' lengthKind Usual
      \<and> px12 = StypDimension 6 (Fin 12) ''px'' lengthKind Usual"
    by (simp add: px12_def)
  have numbers: "js_add (Fin 12) (Fin 12) = Fin 24" "js_sub (Fin 12) (Fin 12) = Fin 0"
    by (simp_all add: js_sub_def round_small round_zero)
  have zero_right: "type_of px12 \<noteq> Type0 \<and> type_of (Zero lengthZeros Important) = Type0"
    by (simp add: px12_def)
  have other: "type_of px12 \<noteq> Type0 \<and> type_of em2 \<noteq> Type0
      \<and> \<not> (type_of px12 = TypeDimension \<and> type_of em2 = TypeDimension \<and> unit_of px12 = unit_of em2)"
    by (simp add: px12_def em2_def)
  have usuals: "usual px12 s = (px12, s)" "usual em2 s = (em2, s)" for s
    by (simp_all add: usual_def px12_def em2_def)
  show ?thesis
    using same_unit zero_right other numbers
      add_sub_cases [where a = px12 and b = px12 and i = 6 and v = "Fin 12" and u = "''px''"
        and d = lengthKind and p = Usual and j = 6 and w = "Fin 12" and d' = lengthKind
        and p' = Usual and s = 10]
      add_sub_cases [where a = px12 and b = "Zero lengthZeros Important" and s = 10]
      add_sub_cases [where a = "Zero lengthZeros Important" and b = px12 and s = 10
        and byp = lengthZeros and q = Important]
      add_sub_cases [where a = px12 and b = em2 and s = 10]
    by (simp add: usuals lengthKind_def)
      (simp add: px12_def new_StypDimension_def lengthKind_def)
qed


section \<open>Negation\<close>





section \<open>Multiplication by zero\<close>

text \<open>
  C10, as stated: \<^verbatim>\<open>v.mul(0)\<close> is never a dimension of value 0. In a kind made by
  \<^verbatim>\<open>unitZeroDimensionKind\<close> the zero is such a dimension: \<^verbatim>\<open>5rad\<close> times 0 is the
  object \<^verbatim>\<open>0deg\<close> of the kind.
\<close>

theorem mul_zero_counterexample:
  "type_of rad5 = TypeDimension
   \<and> mul rad5 (Fin 0) 10 = (StypDimension 5 (Fin 0) ''deg'' angleKind Usual, 10)
   \<and> type_of (fst (mul rad5 (Fin 0) 10)) \<noteq> Type0"
  by (simp add: rad5_def angleKind_def stypDimension_def round_zero)

text \<open>
  C10, amended. For every dimension, every addition or subtraction node and every
  multiplication node \<open>v\<close> (a node built by the constructors: its left operand is stored
  in its usual variant and gives the node its kind, lemma \<open>built_operands\<close>),
  \<^verbatim>\<open>v.mul(0)\<close> is the zero of the
  kind of \<open>v\<close> with the priority of \<open>v\<close>: in a kind with a unitless zero this is the
  \<^verbatim>\<open>Zero\<close> object the kind keeps for that priority, and nothing is allocated; in a kind
  whose zero has a unit it is a dimension of value 0 in the unit of the zero, the zero
  object of the kind itself when \<open>v\<close> has the usual priority. Nothing is said of a division
  node.
\<close>

theorem mul_zero_cases:
  "type_of v = TypeDimension \<or> (\<exists>i l op r d p. v = StypAddSub i l op r d p)
     \<or> (\<exists>i l r p. v = StypMulDiv i l Times r (dim_of l) p \<and> priority_of l = Usual) \<Longrightarrow>
   (dim_of v = UnitlessZero byp \<longrightarrow> mul v (Fin 0) s = (Zero byp (priority_of v), s))
   \<and> (dim_of v = UnitZero k z u \<longrightarrow>
        (\<exists>i. fst (mul v (Fin 0) s) = StypDimension i (Fin 0) u (UnitZero k z u) (priority_of v))
        \<and> (priority_of v = Usual \<longrightarrow> mul v (Fin 0) s = (zero (dim_of v), s)))"
proof -
  assume v: "type_of v = TypeDimension \<or> (\<exists>i l op r d p. v = StypAddSub i l op r d p)
     \<or> (\<exists>i l r p. v = StypMulDiv i l Times r (dim_of l) p \<and> priority_of l = Usual)"
  have m: "mul v (Fin 0) s = prioritize (zero (dim_of v)) (priority_of v) s"
  proof (cases v)
    case (Zero byp' q)
    then show ?thesis using v by simp
  next
    case (StypDimension i x u' d p)
    then show ?thesis
      by (simp add: stypDimension_def falsy_mul_zero)
  next
    case (StypAddSub i l op r d p)
    then show ?thesis
      by (simp add: stypMul_def)
  next
    case (StypMulDiv i l op r d p)
    then have "op = Times" "d = dim_of l" "priority_of l = Usual"
      using v by auto
    moreover have "stypMul l (js_mul r (Fin 0)) s = (zero (dim_of l), s)"
      using \<open>priority_of l = Usual\<close>
      by (simp add: stypMul_def falsy_mul_zero prioritize_same priority_of_zero)
    ultimately show ?thesis
      using StypMulDiv by simp
  qed
  show ?thesis
    unfolding m by (auto simp: new_StypDimension_def)
qed

theorem mul_zero_cases_witness:
  "mul px12_plus_em2 (Fin 0) 10 = (Zero lengthZeros Usual, 10)
   \<and> mul rad5 (Fin 0) 10 = (StypDimension 5 (Fin 0) ''deg'' angleKind Usual, 10)"
proof -
  have v1: "type_of px12_plus_em2 = TypeDimension
     \<or> (\<exists>i l op r d p. px12_plus_em2 = StypAddSub i l op r d p)
     \<or> (\<exists>i l r p. px12_plus_em2 = StypMulDiv i l Times r (dim_of l) p \<and> priority_of l = Usual)"
    by (simp add: px12_plus_em2_def)
  have v2: "type_of rad5 = TypeDimension \<or> (\<exists>i l op r d p. rad5 = StypAddSub i l op r d p)
     \<or> (\<exists>i l r p. rad5 = StypMulDiv i l Times r (dim_of l) p \<and> priority_of l = Usual)"
    by (simp add: rad5_def)
  have k1: "dim_of px12_plus_em2 = UnitlessZero lengthZeros" "priority_of px12_plus_em2 = Usual"
    by (simp_all add: px12_plus_em2_def lengthKind_def)
  have k2: "dim_of rad5 = UnitZero 4 5 ''deg''" "priority_of rad5 = Usual"
    by (simp_all add: rad5_def angleKind_def)
  show ?thesis
    using mul_zero_cases [OF v1, where byp = lengthZeros and s = 10]
      mul_zero_cases [OF v2, where k = 4 and z = 5 and u = "''deg''" and s = 10] k1 k2
    by (simp add: angleKind_def)
qed


section \<open>Multiplication and division by one\<close>

text \<open>
  C5 says that multiplying or dividing any structured numeric value by 1 returns the
  value it is called on, that multiplying a dimension scales its number, and that a
  multiplication or division node folds a further scalar of its own operator into itself.
  The code at the node \<^verbatim>\<open>(12px + 2em).mul(2)\<close>: multiplying it by 1, or dividing it by 1,
  goes through \<^verbatim>\<open>StypMulDiv.mul\<close> and \<^verbatim>\<open>StypMulDiv.div\<close>, which hand the folded scalar
  \<^verbatim>\<open>2 * 1\<close> to \<^verbatim>\<open>stypMul\<close>; the result is a new object, equal to the receiver under
  \<^verbatim>\<open>is\<close> and not identical to it. Multiplying the node by 3 folds to the scalar 6. (On
  the other classes the receiver itself is returned, lemma \<open>mul_div_by_one_same\<close>, and
  the scalars of a multiplication node are folded, lemma \<open>mul_folds\<close>.)
\<close>

theorem mul_by_one_allocates:
  "mul px12_plus_em2 (Fin 2) 10 = (px12_plus_em2_times2, 11)
   \<and> mul px12_plus_em2_times2 (Fin 1) 11 =
       (StypMulDiv 11 px12_plus_em2 Times (Fin 2) lengthKind Usual, 12)
   \<and> oid_of (fst (mul px12_plus_em2_times2 (Fin 1) 11)) \<noteq> oid_of px12_plus_em2_times2
   \<and> \<not> strict_equal (VObject (fst (mul px12_plus_em2_times2 (Fin 1) 11)))
         (VObject px12_plus_em2_times2)
   \<and> is' (fst (mul px12_plus_em2_times2 (Fin 1) 11)) (VObject px12_plus_em2_times2)
   \<and> div' px12_plus_em2_times2 (Fin 1) 11 =
       (StypMulDiv 11 px12_plus_em2 Times (Fin 2) lengthKind Usual, 12)
   \<and> mul px12_plus_em2_times2 (Fin 3) 11 =
       (StypMulDiv 11 px12_plus_em2 Times (Fin 6) lengthKind Usual, 12)"
  by (simp add: px12_plus_em2_times2_def px12_plus_em2_def stypMul_def stypDiv_def opts_of_def
      px12_def em2_def round_small)


section \<open>Splitting the priority off a value\<close>

text \<open>
  C7, as stated: a string that ends in the suffix is returned with the suffix removed.
  The code also trims what is left: with the suffix \<^verbatim>\<open>' !important'\<close>, the string
  \<^verbatim>\<open>' 12px !important'\<close> gives \<^verbatim>\<open>'12px'\<close>, not \<^verbatim>\<open>' 12px'\<close>.
\<close>

theorem split_trim_counterexample:
  "endsWith '' 12px !important'' '' !important''
   \<and> stypSplitPriority '' !important'' (VString '' 12px !important'') 0 =
       (Split2 (VString ''12px'') Important, 0)
   \<and> split_value (fst (stypSplitPriority '' !important'' (VString '' 12px !important'') 0))
       \<noteq> VString (take (length '' 12px !important'' - length '' !important'') '' 12px !important'')"
  by (simp add: endsWith_def substring_def trim_def isWhiteSpace_def)

text \<open>
  C7, amended. \<^verbatim>\<open>stypSplitPriority\<close> splits a property value into a value and a
  priority: for a structured value of important priority it returns the usual variant of
  the value with \<^verbatim>\<open>'important'\<close>; for a string that ends in the suffix
  \<^verbatim>\<open>IMPORTANT_CSS_SUFFIX\<close> (case and spacing exact) it returns the string without the
  suffix, trimmed of the white space at both ends, with \<^verbatim>\<open>'important'\<close>; every other
  value is returned unchanged with no priority (for \<^verbatim>\<open>undefined\<close> the tuple is empty),
  and nothing is allocated.
\<close>

theorem split_priority_cases:
  "(priority_of obj = Important \<longrightarrow>
      stypSplitPriority suffix (VObject obj) s =
        (Split2 (VObject (fst (usual obj s))) Important, snd (usual obj s))
      \<and> priority_of (fst (usual obj s)) = Usual)
   \<and> (endsWith str suffix \<longrightarrow>
      stypSplitPriority suffix (VString str) s =
        (Split2 (VString (trim (take (length str - length suffix) str))) Important, s))
   \<and> ((\<forall>obj. v = VObject obj \<longrightarrow> priority_of obj = Usual)
        \<and> (\<forall>str. v = VString str \<longrightarrow> \<not> endsWith str suffix) \<longrightarrow>
      snd (stypSplitPriority suffix v s) = s
      \<and> split_value (fst (stypSplitPriority suffix v s)) = v
      \<and> split_priority (fst (stypSplitPriority suffix v s)) = Usual)"
proof -
  have other: "snd (stypSplitPriority suffix v s) = s
      \<and> split_value (fst (stypSplitPriority suffix v s)) = v
      \<and> split_priority (fst (stypSplitPriority suffix v s)) = Usual"
    if "\<forall>obj. v = VObject obj \<longrightarrow> priority_of obj = Usual"
      "\<forall>str. v = VString str \<longrightarrow> \<not> endsWith str suffix"
    using that by (cases v) simp_all
  show ?thesis
    using other
    by (simp add: substring_0 usual_def priority_of_prioritize split: prod.splits)
qed

theorem split_priority_cases_witness:
  "stypSplitPriority '' !important'' (VObject (StypDimension 6 (Fin 12) ''px'' lengthKind Important)) 10
     = (Split2 (VObject (StypDimension 10 (Fin 12) ''px'' lengthKind Usual)) Important, 11)
   \<and> stypSplitPriority '' !important'' (VString ''12px  !important'') 10 =
       (Split2 (VString ''12px'') Important, 10)
   \<and> stypSplitPriority '' !important'' (VString ''12px!important'') 10 =
       (Split1 (VString ''12px!important''), 10)
   \<and> stypSplitPriority '' !important'' (VNumber (Fin 12)) 10 = (Split1 (VNumber (Fin 12)), 10)"
proof -
  have important: "priority_of (StypDimension 6 (Fin 12) ''px'' lengthKind Important) = Important"
    by simp
  have ends: "endsWith ''12px  !important'' '' !important''"
    by (simp add: endsWith_def)
  have other: "(\<forall>obj. VNumber (Fin 12) = VObject obj \<longrightarrow> priority_of obj = Usual)
      \<and> (\<forall>str. VNumber (Fin 12) = VString str \<longrightarrow> \<not> endsWith str '' !important'')"
    by simp
  show ?thesis
    using important ends other
      split_priority_cases [where obj = "StypDimension 6 (Fin 12) ''px'' lengthKind Important"
        and suffix = "'' !important''" and str = "''12px  !important''" and v = "VNumber (Fin 12)"
        and s = 10]
    by (simp add: usual_def new_StypDimension_def trim_def isWhiteSpace_def endsWith_def)
qed


section \<open>The selector a rule is rendered with\<close>

text \<open>
  C1. \<^verbatim>\<open>ruleSelector\<close>: for a rule whose selector is empty the selector rendered is the
  normalization of the root selector; for a rule whose selector starts with a combinator it
  is the normalized root selector followed by the selector of the rule unchanged, whose
  text is the text of the root selector, the combinator and the text of the rest; for
  every other rule it is the selector of the rule unchanged.
\<close>

theorem rule_selector_cases:
  "(selector = [] \<longrightarrow> ruleSelector stypSelector rootSelector selector = stypSelector rootSelector)
   \<and> (selector = Combinator c # rest \<longrightarrow>
        ruleSelector stypSelector rootSelector selector = stypSelector rootSelector @ selector
        \<and> formatSelector esc (ruleSelector stypSelector rootSelector selector) raw =
            formatSelector esc (stypSelector rootSelector) raw @ c @ formatSelector esc rest raw)
   \<and> (selector = Part part # rest \<longrightarrow>
        ruleSelector stypSelector rootSelector selector = selector)"
  by (simp add: ruleSelector_def formatSelector_append formatSelector_Cons)

theorem rule_selector_cases_witness:
  "ruleSelector (\<lambda>sel. sel) [Part rootPart] [] = [Part rootPart]
   \<and> ruleSelector (\<lambda>sel. sel) [Part rootPart] [Combinator ''>'', Part nestedPart] =
       [Part rootPart, Combinator ''>'', Part nestedPart]
   \<and> formatSelector (\<lambda>name. name)
        (ruleSelector (\<lambda>sel. sel) [Part rootPart] [Combinator ''>'', Part nestedPart])
        (\<lambda>raw. raw) = ''.root>.nested''
   \<and> ruleSelector (\<lambda>sel. sel) [Part rootPart] [Part nestedPart] = [Part nestedPart]"
  using rule_selector_cases [where selector = "[]" and stypSelector = "\<lambda>sel. sel"
      and rootSelector = "[Part rootPart]"]
    rule_selector_cases [where selector = "[Combinator ''>'', Part nestedPart]" and c = "''>''"
      and rest = "[Part nestedPart]" and stypSelector = "\<lambda>sel. sel"
      and rootSelector = "[Part rootPart]" and esc = "\<lambda>name. name" and raw = "\<lambda>raw. raw"]
    rule_selector_cases [where selector = "[Part nestedPart]" and part = nestedPart
      and rest = "[]" and stypSelector = "\<lambda>sel. sel" and rootSelector = "[Part rootPart]"]
  by (simp add: formatSelector_def formatPart_def rootPart_def nestedPart_def)


section \<open>Rendering over an earlier render\<close>

text \<open>
  C2. When the job of \<^verbatim>\<open>renderProperties\<close> runs and a style sheet exists for the rule,
  every rule of the sheet is deleted before the renderers run: clearing ends without an
  error on the empty sheet, and the sheet after the job holds what the renderers write for
  the new properties into an empty sheet, whatever it held before. So a sheet never holds
  what two runs wrote: after any run of jobs on an existing sheet it holds what the last
  job wrote into an empty sheet.
\<close>

theorem render_job_clears:
  "clearProperties sheet = Inr []
   \<and> renderJob addStyleSheet render properties (Some sheet) =
       Inr (Some (case render properties of None \<Rightarrow> [] | Some write \<Rightarrow> write []))
   \<and> renderJob addStyleSheet render properties (Some sheet) =
       renderJob addStyleSheet render properties (Some [])
   \<and> renderJobs addStyleSheet render (earlier @ [properties]) (Some sheet) =
       Inr (Some (case render properties of None \<Rightarrow> [] | Some write \<Rightarrow> write []))"
  by (simp add: renderJob_Some renderJobs_last clearProperties_empty)

theorem render_job_clears_witness:
  "renderJob [] (\<lambda>properties. Some (\<lambda>rules. rules @ [properties])) ''display: block''
     (Some [''display: inline'', ''color: red'']) = Inr (Some [''display: block''])
   \<and> renderJobs [] (\<lambda>properties. Some (\<lambda>rules. rules @ [properties]))
       ([''color: red'', ''display: inline''] @ [''display: block'']) (Some []) =
       Inr (Some [''display: block''])"
  using render_job_clears [where sheet = "[''display: inline'', ''color: red'']"
      and addStyleSheet = "[]" and render = "\<lambda>properties. Some (\<lambda>rules. rules @ [properties])"
      and properties = "''display: block''"]
    render_job_clears [where sheet = "[]" and addStyleSheet = "[]"
      and render = "\<lambda>properties. Some (\<lambda>rules. rules @ [properties])"
      and earlier = "[''color: red'', ''display: inline'']" and properties = "''display: block''"]
  by simp


section \<open>Qualifiers\<close>



end
